theory Spec2Isabelle
  imports Main
begin

section \<open>Python values handled by the HubSpot server\<close>

text \<open>
  The values that flow through \<^verbatim>\<open>server.py\<close> are what \<^verbatim>\<open>response.json()\<close> and
  \<^verbatim>\<open>to_dict()\<close> produce: \<^verbatim>\<open>None\<close>, booleans, integers, strings, lists and
  dictionaries with string keys, plus the two kinds of object that
  \<^verbatim>\<open>convert_datetime_fields\<close> looks for, \<^verbatim>\<open>datetime\<close> and \<^verbatim>\<open>tzlocal\<close> instances.
  A dictionary is the list of its items in insertion order. The type parameter
  \<open>'dt\<close> stands for \<^verbatim>\<open>datetime.datetime\<close>, whose \<^verbatim>\<open>isoformat()\<close> belongs to the
  Python library and is taken as a parameter. Floating-point numbers are not modelled.
\<close>

datatype 'dt pyval =
    PNone
  | PBool bool
  | PInt int
  | PStr string
  | PList "'dt pyval list"
  | PDict "(string \<times> 'dt pyval) list"
  | PDatetime 'dt
  | PTzlocal

section \<open>The temporal normalizer: \<^verbatim>\<open>convert_datetime_fields\<close>\<close>

text \<open>
  \<^verbatim>\<open>datetime.now(tzlocal()).strftime('%z')\<close> reads the wall clock each time a
  \<^verbatim>\<open>tzlocal\<close> object is met. The clock is a sequence of readings, \<open>now_offset c n\<close>
  being the text of the \<open>n\<close>-th reading, and the number of readings made so far is
  passed through the traversal and returned with the result.
\<close>

record 'dt clock =
  isoformat :: "'dt \<Rightarrow> string"
  now_offset :: "nat \<Rightarrow> string"

text \<open>The f-string \<^verbatim>\<open>f"UTC{offset[:3]}:{offset[3:]}"\<close>.\<close>

definition tz_label :: "string \<Rightarrow> string" where
  "tz_label offset = ''UTC'' @ take 3 offset @ '':'' @ drop 3 offset"

text \<open>
  The dictionary comprehension and the list comprehension visit the items in order;
  \<open>convert_items\<close> and \<open>convert_list\<close> are those two comprehensions.
\<close>

fun convert_datetime_fields :: "'dt clock \<Rightarrow> nat \<Rightarrow> 'dt pyval \<Rightarrow> 'dt pyval \<times> nat"
  and convert_items ::
    "'dt clock \<Rightarrow> nat \<Rightarrow> (string \<times> 'dt pyval) list \<Rightarrow> (string \<times> 'dt pyval) list \<times> nat"
  and convert_list :: "'dt clock \<Rightarrow> nat \<Rightarrow> 'dt pyval list \<Rightarrow> 'dt pyval list \<times> nat"
where
  "convert_datetime_fields c n (PDict kvs) =
     (case convert_items c n kvs of (kvs', n') \<Rightarrow> (PDict kvs', n'))"
| "convert_datetime_fields c n (PList xs) =
     (case convert_list c n xs of (xs', n') \<Rightarrow> (PList xs', n'))"
| "convert_datetime_fields c n (PDatetime d) = (PStr (isoformat c d), n)"
| "convert_datetime_fields c n PTzlocal = (PStr (tz_label (now_offset c n)), Suc n)"
| "convert_datetime_fields c n PNone = (PNone, n)"
| "convert_datetime_fields c n (PBool b) = (PBool b, n)"
| "convert_datetime_fields c n (PInt i) = (PInt i, n)"
| "convert_datetime_fields c n (PStr s) = (PStr s, n)"
| "convert_items c n [] = ([], n)"
| "convert_items c n ((k, v) # kvs) =
     (case convert_datetime_fields c n v of (v', n1) \<Rightarrow>
        (case convert_items c n1 kvs of (kvs', n2) \<Rightarrow> ((k, v') # kvs', n2)))"
| "convert_list c n [] = ([], n)"
| "convert_list c n (x # xs) =
     (case convert_datetime_fields c n x of (x', n1) \<Rightarrow>
        (case convert_list c n1 xs of (xs', n2) \<Rightarrow> (x' # xs', n2)))"

text \<open>A value holds no \<^verbatim>\<open>datetime\<close> and no \<^verbatim>\<open>tzlocal\<close> object, at any depth.\<close>

fun no_temporal :: "'dt pyval \<Rightarrow> bool"
  and no_temporal_items :: "(string \<times> 'dt pyval) list \<Rightarrow> bool"
  and no_temporal_list :: "'dt pyval list \<Rightarrow> bool"
where
  "no_temporal (PDict kvs) = no_temporal_items kvs"
| "no_temporal (PList xs) = no_temporal_list xs"
| "no_temporal (PDatetime d) = False"
| "no_temporal PTzlocal = False"
| "no_temporal PNone = True"
| "no_temporal (PBool b) = True"
| "no_temporal (PInt i) = True"
| "no_temporal (PStr s) = True"
| "no_temporal_items [] = True"
| "no_temporal_items ((k, v) # kvs) = (no_temporal v \<and> no_temporal_items kvs)"
| "no_temporal_list [] = True"
| "no_temporal_list (x # xs) = (no_temporal x \<and> no_temporal_list xs)"

section \<open>Exceptions and the Python operations the aggregator uses\<close>

text \<open>
  An exception is an instance of \<^verbatim>\<open>Exception\<close> and carries the text that \<^verbatim>\<open>str(e)\<close>
  returns. \<open>ApiException\<close> is the class of the HubSpot client that the first
  \<^verbatim>\<open>except\<close> clause names; \<open>AttributeError\<close> and \<open>TypeError\<close> are what the
  interpreter raises for \<^verbatim>\<open>.get\<close> on a value that is no dictionary and for a
  \<^verbatim>\<open>for\<close> over a value that cannot be iterated; \<open>OtherException\<close> is any other
  subclass of \<^verbatim>\<open>Exception\<close>.
\<close>

datatype exn =
    ApiException string
  | AttributeError string
  | TypeError string
  | OtherException string

fun str_exn :: "exn \<Rightarrow> string" where
  "str_exn (ApiException m) = m"
| "str_exn (AttributeError m) = m"
| "str_exn (TypeError m) = m"
| "str_exn (OtherException m) = m"

fun is_ApiException :: "exn \<Rightarrow> bool" where
  "is_ApiException (ApiException m) = True"
| "is_ApiException e = False"

text \<open>Sequencing of steps that may raise: the first exception ends the computation.\<close>

definition ebind :: "'e + 'a \<Rightarrow> ('a \<Rightarrow> 'e + 'b) \<Rightarrow> 'e + 'b" where
  "ebind m f = (case m of Inl e \<Rightarrow> Inl e | Inr v \<Rightarrow> f v)"

fun emap :: "('a \<Rightarrow> 'e + 'b) \<Rightarrow> 'a list \<Rightarrow> 'e + 'b list" where
  "emap f [] = Inr []"
| "emap f (x # xs) = ebind (f x) (\<lambda>y. ebind (emap f xs) (\<lambda>ys. Inr (y # ys)))"

fun type_name :: "'dt pyval \<Rightarrow> string" where
  "type_name PNone = ''NoneType''"
| "type_name (PBool b) = ''bool''"
| "type_name (PInt i) = ''int''"
| "type_name (PStr s) = ''str''"
| "type_name (PList xs) = ''list''"
| "type_name (PDict kvs) = ''dict''"
| "type_name (PDatetime d) = ''datetime.datetime''"
| "type_name PTzlocal = ''tzlocal''"

definition no_attribute :: "'dt pyval \<Rightarrow> string \<Rightarrow> exn" where
  "no_attribute v a =
     AttributeError ([CHR 0x27] @ type_name v @ [CHR 0x27] @ '' object has no attribute ''
                     @ [CHR 0x27] @ a @ [CHR 0x27])"

definition not_iterable :: "'dt pyval \<Rightarrow> exn" where
  "not_iterable v =
     TypeError ([CHR 0x27] @ type_name v @ [CHR 0x27] @ '' object is not iterable'')"

text \<open>\<^verbatim>\<open>d.get(k, default)\<close> on the items of a dictionary.\<close>

definition dict_get :: "(string \<times> 'v) list \<Rightarrow> string \<Rightarrow> 'v \<Rightarrow> 'v" where
  "dict_get kvs k d = (case map_of kvs k of Some v \<Rightarrow> v | None \<Rightarrow> d)"

text \<open>
  \<^verbatim>\<open>v.get(k, default)\<close> on any value: only a dictionary has the method, every other
  value raises \<^verbatim>\<open>AttributeError\<close>.
\<close>

fun py_get :: "'dt pyval \<Rightarrow> string \<Rightarrow> 'dt pyval \<Rightarrow> exn + 'dt pyval" where
  "py_get (PDict kvs) k d = Inr (dict_get kvs k d)"
| "py_get v k d = Inl (no_attribute v ''get'')"

text \<open>
  The elements that \<^verbatim>\<open>for x in v\<close> visits: those of a list, the characters of a
  string, the keys of a dictionary; any other value raises \<^verbatim>\<open>TypeError\<close>.
\<close>

fun py_iter :: "'dt pyval \<Rightarrow> exn + 'dt pyval list" where
  "py_iter (PList xs) = Inr xs"
| "py_iter (PStr s) = Inr (map (\<lambda>ch. PStr [ch]) s)"
| "py_iter (PDict kvs) = Inr (map (\<lambda>kv. PStr (fst kv)) kvs)"
| "py_iter v = Inl (not_iterable v)"

text \<open>Truth value testing, as \<^verbatim>\<open>or\<close> applies it.\<close>

fun truthy :: "'dt pyval \<Rightarrow> bool" where
  "truthy PNone = False"
| "truthy (PBool b) = b"
| "truthy (PInt i) = (i \<noteq> 0)"
| "truthy (PStr s) = (s \<noteq> [])"
| "truthy (PList xs) = (xs \<noteq> [])"
| "truthy (PDict kvs) = (kvs \<noteq> [])"
| "truthy (PDatetime d) = True"
| "truthy PTzlocal = True"

text \<open>\<^verbatim>\<open>a or b\<close>: the right operand is evaluated only when the left one is false.\<close>

definition py_or :: "'dt pyval \<Rightarrow> (exn + 'dt pyval) \<Rightarrow> exn + 'dt pyval" where
  "py_or a b = (if truthy a then Inr a else b)"

text \<open>
  \<^verbatim>\<open>d[k] = v\<close>: the value of an existing key is replaced where it stands, a new key
  goes to the end.
\<close>

fun dict_set :: "(string \<times> 'v) list \<Rightarrow> string \<Rightarrow> 'v \<Rightarrow> (string \<times> 'v) list" where
  "dict_set [] k v = [(k, v)]"
| "dict_set ((k', v') # kvs) k v =
     (if k' = k then (k, v) # kvs else (k', v') # dict_set kvs k v)"

text \<open>Reading a result: the value under a key when the value read is a dictionary.\<close>

fun field :: "string \<Rightarrow> 'dt pyval \<Rightarrow> 'dt pyval option" where
  "field k (PDict kvs) = map_of kvs k"
| "field k v = None"

fun is_dict :: "'dt pyval \<Rightarrow> bool" where
  "is_dict (PDict kvs) = True"
| "is_dict v = False"

section \<open>\<^verbatim>\<open>json.dumps\<close>\<close>

text \<open>
  The text that \<^verbatim>\<open>json.dumps\<close> writes with its default arguments: items separated by
  a comma and a space, key and value by a colon and a space, strings escaped to ASCII.
  A character is a code point below 256. A \<^verbatim>\<open>datetime\<close> or \<^verbatim>\<open>tzlocal\<close> object
  is not serializable and raises \<^verbatim>\<open>TypeError\<close>.
\<close>

definition hex_digit :: "nat \<Rightarrow> char" where
  "hex_digit d = ''0123456789abcdef'' ! (d mod 16)"

definition escape_char :: "char \<Rightarrow> string" where
  "escape_char ch =
     (if ch = CHR 0x22 then [CHR 0x5C, CHR 0x22]
      else if ch = CHR 0x5C then [CHR 0x5C, CHR 0x5C]
      else if ch = CHR 0x0A then [CHR 0x5C, CHR ''n'']
      else if ch = CHR 0x0D then [CHR 0x5C, CHR ''r'']
      else if ch = CHR 0x09 then [CHR 0x5C, CHR ''t'']
      else if ch = CHR 0x0C then [CHR 0x5C, CHR ''f'']
      else if ch = CHR 0x08 then [CHR 0x5C, CHR ''b'']
      else if (of_char ch :: nat) < 32 \<or> 126 < (of_char ch :: nat) then
        [CHR 0x5C, CHR ''u'', CHR ''0'', CHR ''0'',
         hex_digit (of_char ch div 16), hex_digit (of_char ch)]
      else [ch])"

definition json_str :: "string \<Rightarrow> string" where
  "json_str s = [CHR 0x22] @ concat (map escape_char s) @ [CHR 0x22]"

function show_nat :: "nat \<Rightarrow> string" where
  "show_nat n = (if n < 10 then [''0123456789'' ! n]
                 else show_nat (n div 10) @ [''0123456789'' ! (n mod 10)])"
  by pat_completeness auto
termination
  by (relation "measure id") auto

definition show_int :: "int \<Rightarrow> string" where
  "show_int i = (if i < 0 then ''-'' @ show_nat (nat (- i)) else show_nat (nat i))"

fun join :: "string \<Rightarrow> string list \<Rightarrow> string" where
  "join sep [] = []"
| "join sep [x] = x"
| "join sep (x # y # ys) = x @ sep @ join sep (y # ys)"

definition not_serializable :: "string \<Rightarrow> exn" where
  "not_serializable t = TypeError (''Object of type '' @ t @ '' is not JSON serializable'')"

fun json_dumps :: "'dt pyval \<Rightarrow> exn + string"
  and dumps_items :: "(string \<times> 'dt pyval) list \<Rightarrow> exn + string list"
  and dumps_list :: "'dt pyval list \<Rightarrow> exn + string list"
where
  "json_dumps PNone = Inr ''null''"
| "json_dumps (PBool b) = Inr (if b then ''true'' else ''false'')"
| "json_dumps (PInt i) = Inr (show_int i)"
| "json_dumps (PStr s) = Inr (json_str s)"
| "json_dumps (PList xs) =
     ebind (dumps_list xs) (\<lambda>chunks. Inr (''['' @ join '', '' chunks @ '']''))"
| "json_dumps (PDict kvs) =
     ebind (dumps_items kvs) (\<lambda>chunks. Inr (''{'' @ join '', '' chunks @ ''}''))"
| "json_dumps (PDatetime d) = Inl (not_serializable ''datetime'')"
| "json_dumps PTzlocal = Inl (not_serializable ''tzlocal'')"
| "dumps_items [] = Inr []"
| "dumps_items ((k, v) # kvs) =
     ebind (json_dumps v) (\<lambda>s.
     ebind (dumps_items kvs) (\<lambda>chunks. Inr ((json_str k @ '': '' @ s) # chunks)))"
| "dumps_list [] = Inr []"
| "dumps_list (x # xs) =
     ebind (json_dumps x) (\<lambda>s.
     ebind (dumps_list xs) (\<lambda>chunks. Inr (s # chunks)))"

text \<open>The text of the object \<^verbatim>\<open>{"error": m}\<close>.\<close>

definition error_json :: "string \<Rightarrow> string" where
  \<open>error_json m = ''{"error": '' @ json_str m @ ''}''\<close>

section \<open>Formatting one engagement\<close>

text \<open>
  The body of the loop of \<^verbatim>\<open>get_company_activity\<close> after the detail request, lines
  97 to 170 of \<^verbatim>\<open>server.py\<close>. The entries of a dictionary display are evaluated from
  first to last, so the first \<^verbatim>\<open>.get\<close> that raises decides the exception.
\<close>

text \<open>\<^verbatim>\<open>metadata.get(k1, {}).get(k2, "")\<close>\<close>

definition get2 :: "'dt pyval \<Rightarrow> string \<Rightarrow> string \<Rightarrow> exn + 'dt pyval" where
  "get2 metadata k1 k2 =
     ebind (py_get metadata k1 (PDict [])) (\<lambda>d. py_get d k2 (PStr ''''))"

text \<open>The dictionary built for one \<^verbatim>\<open>recipient\<close> of the \<^verbatim>\<open>to\<close>, \<^verbatim>\<open>cc\<close> and \<^verbatim>\<open>bcc\<close> lists.\<close>

definition recipient_ref :: "'dt pyval \<Rightarrow> exn + 'dt pyval" where
  "recipient_ref recipient =
     ebind (py_get recipient ''raw'' (PStr '''')) (\<lambda>raw.
     ebind (py_get recipient ''email'' (PStr '''')) (\<lambda>email.
     ebind (py_get recipient ''firstName'' (PStr '''')) (\<lambda>firstName.
     ebind (py_get recipient ''lastName'' (PStr '''')) (\<lambda>lastName.
     Inr (PDict [(''raw'', raw), (''email'', email),
                 (''firstName'', firstName), (''lastName'', lastName)])))))"

text \<open>The list comprehension \<^verbatim>\<open>[{...} for recipient in metadata.get(k, [])]\<close>.\<close>

definition recipients :: "'dt pyval \<Rightarrow> string \<Rightarrow> exn + 'dt pyval" where
  "recipients metadata k =
     ebind (py_get metadata k (PList [])) (\<lambda>src.
     ebind (py_iter src) (\<lambda>rs.
     ebind (emap recipient_ref rs) (\<lambda>refs. Inr (PList refs))))"

definition email_content :: "'dt pyval \<Rightarrow> exn + 'dt pyval" where
  "email_content metadata =
     ebind (py_get metadata ''subject'' (PStr '''')) (\<lambda>subject.
     ebind (get2 metadata ''from'' ''raw'') (\<lambda>from_raw.
     ebind (get2 metadata ''from'' ''email'') (\<lambda>from_email.
     ebind (get2 metadata ''from'' ''firstName'') (\<lambda>from_firstName.
     ebind (get2 metadata ''from'' ''lastName'') (\<lambda>from_lastName.
     ebind (recipients metadata ''to'') (\<lambda>to.
     ebind (recipients metadata ''cc'') (\<lambda>cc.
     ebind (recipients metadata ''bcc'') (\<lambda>bcc.
     ebind (get2 metadata ''sender'' ''email'') (\<lambda>sender_email.
     ebind (py_get metadata ''text'' (PStr '''')) (\<lambda>text.
     ebind (py_or text (py_get metadata ''html'' (PStr ''''))) (\<lambda>body.
     Inr (PDict
       [(''subject'', subject),
        (''from'', PDict [(''raw'', from_raw), (''email'', from_email),
                          (''firstName'', from_firstName), (''lastName'', from_lastName)]),
        (''to'', to), (''cc'', cc), (''bcc'', bcc),
        (''sender'', PDict [(''email'', sender_email)]),
        (''body'', body)]))))))))))))"

definition task_content :: "'dt pyval \<Rightarrow> exn + 'dt pyval" where
  "task_content metadata =
     ebind (py_get metadata ''subject'' (PStr '''')) (\<lambda>subject.
     ebind (py_get metadata ''body'' (PStr '''')) (\<lambda>body.
     ebind (py_get metadata ''status'' (PStr '''')) (\<lambda>status.
     ebind (py_get metadata ''forObjectType'' (PStr '''')) (\<lambda>forObjectType.
     Inr (PDict [(''subject'', subject), (''body'', body), (''status'', status),
                 (''for_object_type'', forObjectType)])))))"

definition meeting_content :: "'dt pyval \<Rightarrow> exn + 'dt pyval" where
  "meeting_content metadata =
     ebind (py_get metadata ''title'' (PStr '''')) (\<lambda>title.
     ebind (py_get metadata ''body'' (PStr '''')) (\<lambda>body.
     ebind (py_get metadata ''startTime'' PNone) (\<lambda>startTime.
     ebind (py_get metadata ''endTime'' PNone) (\<lambda>endTime.
     ebind (py_get metadata ''internalMeetingNotes'' (PStr '''')) (\<lambda>internalMeetingNotes.
     Inr (PDict [(''title'', title), (''body'', body), (''start_time'', startTime),
                 (''end_time'', endTime), (''internal_notes'', internalMeetingNotes)]))))))"

definition call_content :: "'dt pyval \<Rightarrow> exn + 'dt pyval" where
  "call_content metadata =
     ebind (py_get metadata ''body'' (PStr '''')) (\<lambda>body.
     ebind (py_get metadata ''fromNumber'' (PStr '''')) (\<lambda>fromNumber.
     ebind (py_get metadata ''toNumber'' (PStr '''')) (\<lambda>toNumber.
     ebind (py_get metadata ''durationMilliseconds'' PNone) (\<lambda>durationMilliseconds.
     ebind (py_get metadata ''status'' (PStr '''')) (\<lambda>status.
     ebind (py_get metadata ''disposition'' (PStr '''')) (\<lambda>disposition.
     Inr (PDict [(''body'', body), (''from_number'', fromNumber), (''to_number'', toNumber),
                 (''duration_ms'', durationMilliseconds), (''status'', status),
                 (''disposition'', disposition)])))))))"

text \<open>The dictionary display of lines 101 to 110: the fields every summary has.\<close>

definition shared_fields ::
  "'dt pyval \<Rightarrow> 'dt pyval \<Rightarrow> exn + (string \<times> 'dt pyval) list" where
  "shared_fields engagement_response engagement_data =
     ebind (py_get engagement_data ''id'' PNone) (\<lambda>v_id.
     ebind (py_get engagement_data ''type'' PNone) (\<lambda>v_type.
     ebind (py_get engagement_data ''createdAt'' PNone) (\<lambda>createdAt.
     ebind (py_get engagement_data ''lastUpdated'' PNone) (\<lambda>lastUpdated.
     ebind (py_get engagement_data ''createdBy'' PNone) (\<lambda>createdBy.
     ebind (py_get engagement_data ''modifiedBy'' PNone) (\<lambda>modifiedBy.
     ebind (py_get engagement_data ''timestamp'' PNone) (\<lambda>timestamp.
     ebind (py_get engagement_response ''associations'' (PDict [])) (\<lambda>associations.
     Inr [(''id'', v_id), (''type'', v_type), (''created_at'', createdAt),
          (''last_updated'', lastUpdated), (''created_by'', createdBy),
          (''modified_by'', modifiedBy), (''timestamp'', timestamp),
          (''associations'', associations)]))))))))"

text \<open>\<^verbatim>\<open>formatted_engagement["content"] = ...\<close>, the right-hand side evaluated first.\<close>

definition set_content ::
  "(string \<times> 'dt pyval) list \<Rightarrow> exn + 'dt pyval \<Rightarrow> exn + (string \<times> 'dt pyval) list" where
  "set_content formatted_engagement content =
     ebind content (\<lambda>c. Inr (dict_set formatted_engagement ''content'' c))"

definition format_engagement :: "'dt pyval \<Rightarrow> exn + 'dt pyval" where
  "format_engagement engagement_response =
     ebind (py_get engagement_response ''engagement'' (PDict [])) (\<lambda>engagement_data.
     ebind (py_get engagement_response ''metadata'' (PDict [])) (\<lambda>metadata.
     ebind (shared_fields engagement_response engagement_data) (\<lambda>formatted_engagement.
     ebind (py_get engagement_data ''type'' PNone) (\<lambda>v_type.
     ebind
       (if v_type = PStr ''NOTE'' then
          set_content formatted_engagement (py_get metadata ''body'' (PStr ''''))
        else if v_type = PStr ''EMAIL'' then
          set_content formatted_engagement (email_content metadata)
        else if v_type = PStr ''TASK'' then
          set_content formatted_engagement (task_content metadata)
        else if v_type = PStr ''MEETING'' then
          set_content formatted_engagement (meeting_content metadata)
        else if v_type = PStr ''CALL'' then
          set_content formatted_engagement (call_content metadata)
        else Inr formatted_engagement)
       (\<lambda>formatted_engagement. Inr (PDict formatted_engagement))))))"

section \<open>The CRM client and \<^verbatim>\<open>get_company_activity\<close>\<close>

text \<open>
  The HubSpot client is outside the repository. Its association page is an object that
  may or may not have the attribute \<^verbatim>\<open>results\<close>, a list of links each with a
  \<^verbatim>\<open>to_object_id\<close>. \<open>get_page\<close> takes the four keyword arguments of the call.
  \<open>api_request\<close> takes the number of detail requests made before it in this call, since
  the service may answer two equal requests differently, and returns a response whose
  \<^verbatim>\<open>json()\<close> gives the parsed body or raises.
\<close>

record assoc_link =
  to_object_id :: string

record assoc_page =
  results :: "assoc_link list option"

record http_request =
  http_method :: string
  path :: string

record 'dt http_response =
  json :: "exn + 'dt pyval"

record 'dt crm =
  get_page :: "string \<Rightarrow> string \<Rightarrow> string \<Rightarrow> nat \<Rightarrow> exn + assoc_page"
  api_request :: "nat \<Rightarrow> http_request \<Rightarrow> exn + 'dt http_response"

fun collect_ids :: "assoc_link list \<Rightarrow> string list \<Rightarrow> string list" where
  "collect_ids [] engagement_ids = engagement_ids"
| "collect_ids (result # rest) engagement_ids =
     collect_ids rest (engagement_ids @ [to_object_id result])"

text \<open>Lines 84 to 87: no identifiers when the page has no attribute \<^verbatim>\<open>results\<close>.\<close>

definition engagement_ids_of :: "assoc_page \<Rightarrow> string list" where
  "engagement_ids_of associated_engagements =
     (case results associated_engagements of
        None \<Rightarrow> []
      | Some rs \<Rightarrow> collect_ids rs [])"

text \<open>Lines 92 to 95: the detail request and the parsing of its body.\<close>

definition fetch_engagement :: "'dt crm \<Rightarrow> nat \<Rightarrow> string \<Rightarrow> exn + 'dt pyval" where
  "fetch_engagement crm k engagement_id =
     ebind (api_request crm k
              \<lparr>http_method = ''GET'', path = ''/engagements/v1/engagements/'' @ engagement_id\<rparr>)
       (\<lambda>response. json response)"

text \<open>One turn of the loop up to the \<^verbatim>\<open>append\<close>: request, parse, format.\<close>

definition fetch_and_format :: "'dt crm \<Rightarrow> nat \<Rightarrow> string \<Rightarrow> exn + 'dt pyval" where
  "fetch_and_format crm k engagement_id =
     ebind (fetch_engagement crm k engagement_id) format_engagement"

fun activity_loop ::
  "'dt crm \<Rightarrow> nat \<Rightarrow> string list \<Rightarrow> 'dt pyval list \<Rightarrow> exn + 'dt pyval list" where
  "activity_loop crm k [] activities = Inr activities"
| "activity_loop crm k (engagement_id # rest) activities =
     ebind (fetch_and_format crm k engagement_id) (\<lambda>formatted_engagement.
     activity_loop crm (Suc k) rest (activities @ [formatted_engagement]))"

text \<open>The \<^verbatim>\<open>try\<close> block.\<close>

definition activity_body :: "'dt crm \<Rightarrow> 'dt clock \<Rightarrow> string \<Rightarrow> exn + string" where
  "activity_body crm clk company_id =
     ebind (get_page crm ''companies'' company_id ''engagements'' 500)
       (\<lambda>associated_engagements.
     ebind (activity_loop crm 0 (engagement_ids_of associated_engagements) [])
       (\<lambda>activities.
     json_dumps (fst (convert_datetime_fields clk 0 (PList activities)))))"

text \<open>
  What a call does: it returns a text, or an exception leaves it. Both \<^verbatim>\<open>except\<close>
  clauses return \<^verbatim>\<open>json.dumps({"error": str(e)})\<close>; writing to the log has no effect
  on the result.
\<close>

datatype outcome = Returned string | Raised exn

definition error_reply :: "exn \<Rightarrow> outcome" where
  "error_reply e =
     (case json_dumps (PDict [(''error'', PStr (str_exn e))] :: unit pyval) of
        Inr s \<Rightarrow> Returned s
      | Inl e' \<Rightarrow> Raised e')"

definition get_company_activity :: "'dt crm \<Rightarrow> 'dt clock \<Rightarrow> string \<Rightarrow> outcome" where
  "get_company_activity crm clk company_id =
     (case activity_body crm clk company_id of
        Inr s \<Rightarrow> Returned s
      | Inl e \<Rightarrow> if is_ApiException e then error_reply e else error_reply e)"

section \<open>Sample clients\<close>

text \<open>Concrete clocks, clients and responses at which the theorems below are exercised.\<close>

definition clock0 :: "unit clock" where
  "clock0 = \<lparr>isoformat = (\<lambda>d. ''2024-01-01T00:00:00''), now_offset = (\<lambda>n. ''+0000'')\<rparr>"

definition note_response :: "unit pyval" where
  "note_response =
     PDict [(''engagement'', PDict [(''id'', PStr ''e1''), (''type'', PStr ''NOTE''),
                                    (''createdAt'', PStr ''2024-01-01T00:00:00Z'')]),
            (''metadata'', PDict [(''body'', PStr ''hello'')])]"

text \<open>A company without engagements: the page has an empty \<^verbatim>\<open>results\<close> list.\<close>

definition crm_no_links :: "unit crm" where
  "crm_no_links =
     \<lparr>get_page = (\<lambda>object_type object_id to_object_type limit. Inr \<lparr>results = Some []\<rparr>),
      api_request = (\<lambda>k request. Inl (OtherException ''no request expected''))\<rparr>"

text \<open>The association request fails with an exception whose text is empty.\<close>

definition crm_silent_failure :: "unit crm" where
  "crm_silent_failure =
     \<lparr>get_page = (\<lambda>object_type object_id to_object_type limit. Inl (OtherException [])),
      api_request = (\<lambda>k request. Inl (OtherException ''no request expected''))\<rparr>"

text \<open>The association request is refused.\<close>

definition crm_refused :: "unit crm" where
  "crm_refused =
     \<lparr>get_page = (\<lambda>object_type object_id to_object_type limit.
                    Inl (ApiException ''(401) Reason: Unauthorized'')),
      api_request = (\<lambda>k request. Inl (OtherException ''no request expected''))\<rparr>"

text \<open>Two linked engagements; the first detail request succeeds, the second fails.\<close>

definition two_links :: assoc_page where
  "two_links = \<lparr>results = Some [\<lparr>to_object_id = ''e1''\<rparr>, \<lparr>to_object_id = ''e2''\<rparr>]\<rparr>"

definition crm_second_fails :: "unit crm" where
  "crm_second_fails =
     \<lparr>get_page = (\<lambda>object_type object_id to_object_type limit. Inr two_links),
      api_request = (\<lambda>k request.
        if k = 0 then Inr \<lparr>json = Inr note_response\<rparr>
        else Inl (ApiException ''(404) Reason: Not Found''))\<rparr>"

section \<open>Reading a formatted summary\<close>

text \<open>Reading a result along a path of keys.\<close>

fun at_path :: "string list \<Rightarrow> 'dt pyval \<Rightarrow> 'dt pyval option" where
  "at_path [] v = Some v"
| "at_path (k # ks) v = (case field k v of None \<Rightarrow> None | Some w \<Rightarrow> at_path ks w)"

text \<open>The value at a path of keys in what \<open>format_engagement\<close> returns, if it returns.\<close>

definition formatted_at :: "string list \<Rightarrow> 'dt pyval \<Rightarrow> 'dt pyval option" where
  "formatted_at ks engagement_response =
     (case format_engagement engagement_response of
        Inl e \<Rightarrow> None
      | Inr formatted_engagement \<Rightarrow> at_path ks formatted_engagement)"

text \<open>
  The metadata of an email as the HubSpot API sends it: \<^verbatim>\<open>from\<close> and \<^verbatim>\<open>sender\<close>, when
  present, are objects, and \<^verbatim>\<open>to\<close>, \<^verbatim>\<open>cc\<close> and \<^verbatim>\<open>bcc\<close>, when present, are lists of
  objects.
\<close>

definition object_or_absent :: "(string \<times> 'dt pyval) list \<Rightarrow> string \<Rightarrow> bool" where
  "object_or_absent m k = (case map_of m k of None \<Rightarrow> True | Some v \<Rightarrow> is_dict v)"

definition objects_or_absent :: "(string \<times> 'dt pyval) list \<Rightarrow> string \<Rightarrow> bool" where
  "objects_or_absent m k =
     (case map_of m k of
        None \<Rightarrow> True
      | Some (PList xs) \<Rightarrow> list_all is_dict xs
      | Some v \<Rightarrow> False)"

definition email_metadata_typed :: "(string \<times> 'dt pyval) list \<Rightarrow> bool" where
  "email_metadata_typed m =
     (object_or_absent m ''from'' \<and> object_or_absent m ''sender'' \<and>
      objects_or_absent m ''to'' \<and> objects_or_absent m ''cc'' \<and> objects_or_absent m ''bcc'')"

section \<open>The specification's wording of two email properties\<close>

text \<open>
  The specification's RecipientRef: exactly the attributes \<^verbatim>\<open>raw\<close>, \<^verbatim>\<open>email\<close>,
  \<^verbatim>\<open>first_name\<close> and \<^verbatim>\<open>last_name\<close>, each a string.
\<close>

fun is_str :: "'dt pyval \<Rightarrow> bool" where
  "is_str (PStr s) = True"
| "is_str v = False"

fun spec_RecipientRef :: "'dt pyval \<Rightarrow> bool" where
  "spec_RecipientRef (PDict kvs) =
     (distinct (map fst kvs) \<and>
      list_all (\<lambda>k. k \<in> set [''raw'', ''email'', ''first_name'', ''last_name'']) (map fst kvs) \<and>
      list_all (\<lambda>k. k \<in> set (map fst kvs)) [''raw'', ''email'', ''first_name'', ''last_name''] \<and>
      list_all (\<lambda>kv. is_str (snd kv)) kvs)"
| "spec_RecipientRef v = False"

text \<open>
  The specification's email body: \<^verbatim>\<open>metadata.text\<close> when present, otherwise
  \<^verbatim>\<open>metadata.html\<close>, and the empty string when both are absent.
\<close>

definition spec_email_body :: "(string \<times> 'dt pyval) list \<Rightarrow> 'dt pyval" where
  "spec_email_body m =
     (case map_of m ''text'' of
        Some t \<Rightarrow> t
      | None \<Rightarrow> (case map_of m ''html'' of Some h \<Rightarrow> h | None \<Rightarrow> PStr ''''))"

section \<open>Sample engagements\<close>

text \<open>An email whose metadata is empty.\<close>

definition email_empty_response :: "unit pyval" where
  "email_empty_response =
     PDict [(''engagement'', PDict [(''id'', PInt 7), (''type'', PStr ''EMAIL'')]),
            (''metadata'', PDict [])]"

text \<open>An email with a sender and two recipients, and with an HTML body only.\<close>

definition email_html_metadata :: "(string \<times> unit pyval) list" where
  "email_html_metadata =
     [(''subject'', PStr ''Hi''),
      (''from'', PDict [(''email'', PStr ''ann@x.io''), (''firstName'', PStr ''Ann'')]),
      (''to'', PList [PDict [(''email'', PStr ''bob@x.io'')],
                      PDict [(''email'', PStr ''cy@x.io''), (''lastName'', PStr ''Cy'')]]),
      (''text'', PStr ''''),
      (''html'', PStr ''<p>Hi</p>'')]"

definition email_html_engagement :: "(string \<times> unit pyval) list" where
  "email_html_engagement = [(''id'', PInt 8), (''type'', PStr ''EMAIL'')]"

definition email_html_items :: "(string \<times> unit pyval) list" where
  "email_html_items =
     [(''engagement'', PDict email_html_engagement), (''metadata'', PDict email_html_metadata)]"

definition email_html_response :: "unit pyval" where
  "email_html_response = PDict email_html_items"

text \<open>What \<open>format_engagement\<close> returns for it.\<close>

definition email_html_formatted :: "unit pyval" where
  "email_html_formatted =
     PDict [(''id'', PInt 8), (''type'', PStr ''EMAIL''), (''created_at'', PNone),
       (''last_updated'', PNone), (''created_by'', PNone), (''modified_by'', PNone),
       (''timestamp'', PNone), (''associations'', PDict []),
       (''content'', PDict
          [(''subject'', PStr ''Hi''),
           (''from'', PDict [(''raw'', PStr ''''), (''email'', PStr ''ann@x.io''),
                             (''firstName'', PStr ''Ann''), (''lastName'', PStr '''')]),
           (''to'', PList
              [PDict [(''raw'', PStr ''''), (''email'', PStr ''bob@x.io''),
                      (''firstName'', PStr ''''), (''lastName'', PStr '''')],
               PDict [(''raw'', PStr ''''), (''email'', PStr ''cy@x.io''),
                      (''firstName'', PStr ''''), (''lastName'', PStr ''Cy'')]]),
           (''cc'', PList []), (''bcc'', PList []),
           (''sender'', PDict [(''email'', PStr '''')]),
           (''body'', PStr ''<p>Hi</p>'')])]"

text \<open>An engagement of a type the code does not know.\<close>

definition unknown_response :: "unit pyval" where
  "unknown_response =
     PDict [(''engagement'', PDict [(''id'', PInt 9), (''type'', PStr ''UNKNOWN_X'')]),
            (''metadata'', PDict [(''body'', PStr ''x'')])]"

section \<open>Properties of the normalizer\<close>

lemma convert_no_temporal:
  "no_temporal (fst (convert_datetime_fields c n v))"
  "no_temporal_items (fst (convert_items c n kvs))"
  "no_temporal_list (fst (convert_list c n xs))"
  by (induction c n v and c n kvs and c n xs
      rule: convert_datetime_fields_convert_items_convert_list.induct)
     (fastforce split: prod.splits)+

lemma convert_fixed:
  "no_temporal v \<Longrightarrow> convert_datetime_fields c n v = (v, n)"
  "no_temporal_items kvs \<Longrightarrow> convert_items c n kvs = (kvs, n)"
  "no_temporal_list xs \<Longrightarrow> convert_list c n xs = (xs, n)"
  by (induction c n v and c n kvs and c n xs
      rule: convert_datetime_fields_convert_items_convert_list.induct)
     (fastforce split: prod.splits)+

text \<open>
  Claim C2. The normalizer is idempotent: normalizing a normalized value gives the same
  value again. The second pass meets no \<^verbatim>\<open>datetime\<close> and no \<^verbatim>\<open>tzlocal\<close> object, so
  it may run under any clock \<open>c'\<close> and at any later moment \<open>n'\<close>, and it makes no
  clock reading.
\<close>

theorem convert_datetime_fields_idempotent:
  "convert_datetime_fields c' n' (fst (convert_datetime_fields c n v)) =
     (fst (convert_datetime_fields c n v), n')"
  by (rule convert_fixed(1)) (rule convert_no_temporal(1))

text \<open>
  Claim C10. A string is returned as it is, whatever it spells, and without a clock
  reading: a string that looks like a timestamp is no \<^verbatim>\<open>datetime\<close> instance.
\<close>

theorem convert_datetime_fields_string:
  \<open>convert_datetime_fields c n (PStr s) = (PStr s, n)
   \<and> convert_datetime_fields c n (PStr ''2024-01-01T00:00:00Z'') = (PStr ''2024-01-01T00:00:00Z'', n)\<close>
  by simp

section \<open>Properties of \<^verbatim>\<open>get_company_activity\<close>\<close>

lemma ebind_Inr [simp]: "ebind (Inr v) f = f v"
  by (simp add: ebind_def)

lemma ebind_Inl [simp]: "ebind (Inl e) f = Inl e"
  by (simp add: ebind_def)

lemma ebind_eq_Inr: "(ebind m f = Inr y) = (\<exists>v. m = Inr v \<and> f v = Inr y)"
  by (cases m) simp_all

lemma collect_ids_append: "collect_ids rs acc = acc @ map to_object_id rs"
  by (induction rs arbitrary: acc) simp_all

lemma json_dumps_error:
  "json_dumps (PDict [(''error'', PStr m)]) = Inr (error_json m)"
  by (simp add: error_json_def json_str_def escape_char_def)

lemma error_reply_eq: "error_reply e = Returned (error_json (str_exn e))"
  by (simp only: error_reply_def json_dumps_error sum.case)

lemma get_company_activity_cases:
  "get_company_activity crm clk company_id =
     (case activity_body crm clk company_id of
        Inr s \<Rightarrow> Returned s
      | Inl e \<Rightarrow> Returned (error_json (str_exn e)))"
  by (simp add: get_company_activity_def error_reply_eq split: sum.splits)

lemma activity_loop_first_failure:
  "k < length ids \<Longrightarrow>
   (\<forall>j<k. \<exists>v. fetch_and_format crm (k0 + j) (ids ! j) = Inr v) \<Longrightarrow>
   fetch_and_format crm (k0 + k) (ids ! k) = Inl e \<Longrightarrow>
   activity_loop crm k0 ids acc = Inl e"
proof (induction ids arbitrary: k k0 acc)
  case Nil
  then show ?case by simp
next
  case (Cons i ids)
  show ?case
  proof (cases k)
    case 0
    with Cons.prems show ?thesis by simp
  next
    case (Suc k')
    from Cons.prems(2) Suc obtain v where v: "fetch_and_format crm k0 i = Inr v"
      by fastforce
    have "activity_loop crm (Suc k0) ids (acc @ [v]) = Inl e"
    proof (rule Cons.IH)
      show "k' < length ids" using Cons.prems(1) Suc by simp
      show "\<forall>j<k'. \<exists>v. fetch_and_format crm (Suc k0 + j) (ids ! j) = Inr v"
      proof (intro allI impI)
        fix j assume "j < k'"
        then have "Suc j < k" using Suc by simp
        with Cons.prems(2) have "\<exists>v. fetch_and_format crm (k0 + Suc j) ((i # ids) ! Suc j) = Inr v"
          by blast
        then show "\<exists>v. fetch_and_format crm (Suc k0 + j) (ids ! j) = Inr v" by simp
      qed
      show "fetch_and_format crm (Suc k0 + k') (ids ! k') = Inl e"
        using Cons.prems(3) Suc by simp
    qed
    with v show ?thesis by simp
  qed
qed

lemma activity_loop_failure:
  assumes "k < length ids" and "fetch_and_format crm (k0 + k) (ids ! k) = Inl e"
  shows "\<exists>e'. activity_loop crm k0 ids acc = Inl e'"
proof -
  define P where "P j = (j < length ids \<and> (\<exists>e'. fetch_and_format crm (k0 + j) (ids ! j) = Inl e'))" for j
  have "P k" using assms by (auto simp: P_def)
  define m where "m = (LEAST j. P j)"
  have Pm: "P m" unfolding m_def using \<open>P k\<close> by (rule LeastI)
  have least: "\<And>j. j < m \<Longrightarrow> \<not> P j" unfolding m_def by (rule not_less_Least)
  from Pm obtain e' where m: "m < length ids" "fetch_and_format crm (k0 + m) (ids ! m) = Inl e'"
    by (auto simp: P_def)
  have "\<forall>j<m. \<exists>v. fetch_and_format crm (k0 + j) (ids ! j) = Inr v"
  proof (intro allI impI)
    fix j assume jm: "j < m"
    then have "\<not> P j" by (rule least)
    moreover have "j < length ids" using jm m(1) by simp
    ultimately have "\<forall>e'. fetch_and_format crm (k0 + j) (ids ! j) \<noteq> Inl e'" by (simp add: P_def)
    then show "\<exists>v. fetch_and_format crm (k0 + j) (ids ! j) = Inr v"
      by (cases "fetch_and_format crm (k0 + j) (ids ! j)") auto
  qed
  with m have "activity_loop crm k0 ids acc = Inl e'"
    by (intro activity_loop_first_failure)
  then show ?thesis ..
qed

lemma json_dumps_list_head:
  "json_dumps (PList xs) = Inr s \<Longrightarrow> hd s = CHR ''[''"
  by (auto simp: ebind_eq_Inr)

lemma error_json_head: \<open>hd (error_json m) = CHR ''{''\<close>
  by (simp add: error_json_def)

lemma error_json_not_list: "json_dumps (PList xs) \<noteq> Inr (error_json m)"
proof
  assume "json_dumps (PList xs) = Inr (error_json m)"
  then have "hd (error_json m) = CHR ''[''" by (rule json_dumps_list_head)
  then show False by (simp add: error_json_head)
qed

text \<open>
  Claim C6. When the association request succeeds and its page has no attribute
  \<^verbatim>\<open>results\<close>, or an empty \<^verbatim>\<open>results\<close> list, \<^verbatim>\<open>get_company_activity\<close> returns the
  text \<^verbatim>\<open>[]\<close>, for every company identifier, and no error object.
\<close>

theorem zero_links:
  assumes "get_page crm ''companies'' company_id ''engagements'' 500 = Inr page"
    and "results page = None \<or> results page = Some []"
  shows "get_company_activity crm clk company_id = Returned ''[]''"
  using assms
  by (auto simp: get_company_activity_cases activity_body_def engagement_ids_of_def)


text \<open>
  The theorem at a client whose page has an empty \<^verbatim>\<open>results\<close> list.
\<close>

theorem zero_links_witness:
  "get_page crm_no_links ''companies'' ''123'' ''engagements'' 500 = Inr \<lparr>results = Some []\<rparr>
   \<and> get_company_activity crm_no_links clock0 ''123'' = Returned ''[]''"
  using zero_links [of crm_no_links "''123''" "\<lparr>results = Some []\<rparr>" clock0]
  by (simp add: crm_no_links_def)

text \<open>
  Claim C5. When the detail request, the parsing of its body or the formatting raises
  for one of the linked engagement identifiers, the whole call returns the text of one
  error object; that text is not the serialization of any list, so no part of the
  engagements formatted before the failure is returned.
\<close>

theorem detail_failure_aborts:
  assumes "get_page crm ''companies'' company_id ''engagements'' 500 = Inr page"
    and "k < length (engagement_ids_of page)"
    and "fetch_and_format crm k (engagement_ids_of page ! k) = Inl e"
  shows "\<exists>e'. get_company_activity crm clk company_id = Returned (error_json (str_exn e'))
              \<and> (\<forall>xs :: 'dt pyval list. json_dumps (PList xs) \<noteq> Inr (error_json (str_exn e')))"
proof -
  from assms(2,3) obtain e' where
    "activity_loop crm 0 (engagement_ids_of page) [] = Inl e'"
    using activity_loop_failure [of k "engagement_ids_of page" crm 0 e "[]"] by auto
  with assms(1) have "get_company_activity crm clk company_id = Returned (error_json (str_exn e'))"
    by (simp add: get_company_activity_cases activity_body_def)
  then show ?thesis using error_json_not_list by blast
qed

lemma fetch_second_fails:
  "fetch_and_format crm_second_fails 1 (engagement_ids_of two_links ! 1)
     = Inl (ApiException ''(404) Reason: Not Found'')"
  by (simp add: fetch_and_format_def fetch_engagement_def crm_second_fails_def)

text \<open>
  The theorem at a client with two links whose second detail request fails after the
  first engagement has been formatted.
\<close>

theorem detail_failure_aborts_witness:
  "get_page crm_second_fails ''companies'' ''123'' ''engagements'' 500 = Inr two_links
   \<and> 1 < length (engagement_ids_of two_links)
   \<and> fetch_and_format crm_second_fails 1 (engagement_ids_of two_links ! 1)
        = Inl (ApiException ''(404) Reason: Not Found'')
   \<and> (\<exists>e'. get_company_activity crm_second_fails clock0 ''123''
               = Returned (error_json (str_exn e'))
            \<and> (\<forall>xs :: unit pyval list. json_dumps (PList xs) \<noteq> Inr (error_json (str_exn e'))))"
proof -
  have p: "get_page crm_second_fails ''companies'' ''123'' ''engagements'' 500 = Inr two_links"
    by (simp add: crm_second_fails_def)
  have l: "1 < length (engagement_ids_of two_links)"
    by (simp add: engagement_ids_of_def two_links_def)
  show ?thesis
    using p l fetch_second_fails
      detail_failure_aborts [OF p l fetch_second_fails, of clock0]
    by blast
qed

text \<open>
  Claim C1, as amended. When the association request raises \<open>e\<close>, or when \<open>e\<close> is the
  first exception raised by a detail request, by the parsing of its body or by the
  formatting, \<^verbatim>\<open>get_company_activity\<close> raises nothing and returns the text of the object
  whose single key \<^verbatim>\<open>error\<close> holds \<^verbatim>\<open>str(e)\<close>. The message is that text as it is; it
  is empty when the text of the exception is.
\<close>

theorem exception_containment:
  assumes "get_page crm ''companies'' company_id ''engagements'' 500 = Inl e \<or>
           (\<exists>page k. get_page crm ''companies'' company_id ''engagements'' 500 = Inr page
              \<and> k < length (engagement_ids_of page)
              \<and> (\<forall>j<k. \<exists>v. fetch_and_format crm j (engagement_ids_of page ! j) = Inr v)
              \<and> fetch_and_format crm k (engagement_ids_of page ! k) = Inl e)"
  shows "get_company_activity crm clk company_id = Returned (error_json (str_exn e))
         \<and> json_dumps (PDict [(''error'', PStr (str_exn e))] :: 'dt pyval)
             = Inr (error_json (str_exn e))"
proof -
  have "activity_body crm clk company_id = Inl e"
    using assms
  proof
    assume "get_page crm ''companies'' company_id ''engagements'' 500 = Inl e"
    then show ?thesis by (simp add: activity_body_def)
  next
    assume "\<exists>page k. get_page crm ''companies'' company_id ''engagements'' 500 = Inr page
              \<and> k < length (engagement_ids_of page)
              \<and> (\<forall>j<k. \<exists>v. fetch_and_format crm j (engagement_ids_of page ! j) = Inr v)
              \<and> fetch_and_format crm k (engagement_ids_of page ! k) = Inl e"
    then obtain page k where
      p: "get_page crm ''companies'' company_id ''engagements'' 500 = Inr page"
      and k: "k < length (engagement_ids_of page)"
      and before: "\<forall>j<k. \<exists>v. fetch_and_format crm (0 + j) (engagement_ids_of page ! j) = Inr v"
      and at: "fetch_and_format crm (0 + k) (engagement_ids_of page ! k) = Inl e"
      by auto
    have "activity_loop crm 0 (engagement_ids_of page) [] = Inl e"
      using k before at by (rule activity_loop_first_failure)
    with p show ?thesis by (simp add: activity_body_def)
  qed
  then have "get_company_activity crm clk company_id = Returned (error_json (str_exn e))"
    by (simp add: get_company_activity_cases)
  then show ?thesis
    using json_dumps_error by blast
qed

text \<open>
  The theorem at a client whose association request is refused.
\<close>

theorem exception_containment_witness:
  "get_page crm_refused ''companies'' ''123'' ''engagements'' 500
      = Inl (ApiException ''(401) Reason: Unauthorized'')
   \<and> get_company_activity crm_refused clock0 ''123''
      = Returned (error_json ''(401) Reason: Unauthorized'')"
  using exception_containment [of crm_refused "''123''"
          "ApiException ''(401) Reason: Unauthorized''" clock0]
  by (simp add: crm_refused_def)

lemma length_json_str: "length s + 2 \<le> length (json_str s)"
proof -
  have "length s \<le> length (concat (map escape_char s))"
    by (induction s) (auto simp: escape_char_def)
  then show ?thesis by (simp add: json_str_def)
qed

lemma error_json_empty: \<open>error_json [] = ''{"error": ""}''\<close>
  by (simp add: error_json_def json_str_def)

text \<open>
  Claim C1 as stated fails: an association request that raises an exception with an
  empty text is answered by an error object whose message is the empty string.
\<close>

theorem empty_message_counterexample:
  \<open>get_company_activity crm_silent_failure clock0 ''123'' = Returned ''{"error": ""}''
   \<and> \<not> (\<exists>m. m \<noteq> [] \<and>
           get_company_activity crm_silent_failure clock0 ''123'' = Returned (error_json m))\<close>
proof -
  have r: "get_company_activity crm_silent_failure clock0 ''123'' = Returned (error_json [])"
    by (simp add: get_company_activity_cases activity_body_def crm_silent_failure_def)
  have "m = []" if "error_json m = error_json []" for m
  proof -
    have "length (error_json m) = 13" using that by (simp add: error_json_empty)
    moreover have "length (error_json m) = 11 + length (json_str m)"
      by (simp add: error_json_def)
    ultimately have "length (json_str m) = 2" by simp
    with length_json_str [of m] show ?thesis by simp
  qed
  with r show ?thesis by (auto simp: error_json_empty)
qed

section \<open>Properties of \<^verbatim>\<open>format_engagement\<close>\<close>

lemma py_get_Inr: "py_get v k d = Inr x \<Longrightarrow> \<exists>kvs. v = PDict kvs \<and> x = dict_get kvs k d"
  by (cases v) auto

lemma shared_fields_dict:
  "shared_fields (PDict resp) (PDict eng) =
     Inr [(''id'', dict_get eng ''id'' PNone), (''type'', dict_get eng ''type'' PNone),
          (''created_at'', dict_get eng ''createdAt'' PNone),
          (''last_updated'', dict_get eng ''lastUpdated'' PNone),
          (''created_by'', dict_get eng ''createdBy'' PNone),
          (''modified_by'', dict_get eng ''modifiedBy'' PNone),
          (''timestamp'', dict_get eng ''timestamp'' PNone),
          (''associations'', dict_get resp ''associations'' (PDict []))]"
  by (simp add: shared_fields_def)

lemma shared_fields_Inl: "shared_fields r d = Inl e \<Longrightarrow> \<not> is_dict r \<or> \<not> is_dict d"
  by (cases r; cases d) (simp_all add: shared_fields_dict)

lemma set_content_shared:
  "shared_fields (PDict resp) (PDict eng) = Inr sh \<Longrightarrow>
   set_content sh content = ebind content (\<lambda>c. Inr (sh @ [(''content'', c)]))"
  by (auto simp: shared_fields_dict set_content_def)

lemma recipient_ref_dict:
  "recipient_ref (PDict d) =
     Inr (PDict [(''raw'', dict_get d ''raw'' (PStr '''')),
                 (''email'', dict_get d ''email'' (PStr '''')),
                 (''firstName'', dict_get d ''firstName'' (PStr '''')),
                 (''lastName'', dict_get d ''lastName'' (PStr ''''))])"
  by (simp add: recipient_ref_def)

lemma recipient_ref_Inr:
  "recipient_ref r = Inr y \<Longrightarrow>
   \<exists>d. r = PDict d \<and>
       y = PDict [(''raw'', dict_get d ''raw'' (PStr '''')),
                  (''email'', dict_get d ''email'' (PStr '''')),
                  (''firstName'', dict_get d ''firstName'' (PStr '''')),
                  (''lastName'', dict_get d ''lastName'' (PStr ''''))]"
  by (cases r) (simp_all add: recipient_ref_dict recipient_ref_def)

lemma emap_Inr: "emap f xs = Inr ys \<Longrightarrow> map f xs = map Inr ys"
  by (induction xs arbitrary: ys) (auto simp: ebind_eq_Inr)

lemma emap_all_Inr: "\<forall>x\<in>set xs. \<exists>y. f x = Inr y \<Longrightarrow> \<exists>ys. emap f xs = Inr ys"
  by (induction xs) auto

lemma recipients_Inr:
  "recipients (PDict m) k = Inr t \<Longrightarrow>
   \<exists>src refs. py_iter (dict_get m k (PList [])) = Inr src \<and> t = PList refs
       \<and> map recipient_ref src = map Inr refs"
  by (auto simp: recipients_def ebind_eq_Inr dest: emap_Inr)

lemma get2_dict_Inr:
  "get2 (PDict m) k1 k2 = Inr x \<Longrightarrow>
   \<exists>d. dict_get m k1 (PDict []) = PDict d \<and> x = dict_get d k2 (PStr '''')"
  by (auto simp: get2_def dest: py_get_Inr)

lemma email_content_Inr:
  assumes "email_content md = Inr c"
  shows "\<exists>m f t cc bcc s.
     md = PDict m \<and>
     c = PDict [(''subject'', dict_get m ''subject'' (PStr '''')), (''from'', f),
                (''to'', t), (''cc'', cc), (''bcc'', bcc), (''sender'', s),
                (''body'', if truthy (dict_get m ''text'' (PStr ''''))
                           then dict_get m ''text'' (PStr '''')
                           else dict_get m ''html'' (PStr ''''))] \<and>
     recipient_ref (dict_get m ''from'' (PDict [])) = Inr f \<and>
     recipients (PDict m) ''to'' = Inr t \<and>
     recipients (PDict m) ''cc'' = Inr cc \<and>
     recipients (PDict m) ''bcc'' = Inr bcc \<and>
     (\<exists>sd. dict_get m ''sender'' (PDict []) = PDict sd
          \<and> s = PDict [(''email'', dict_get sd ''email'' (PStr ''''))])"
proof (cases md)
  case (PDict m)
  from assms [unfolded PDict email_content_def ebind_eq_Inr]
  obtain subject from_raw from_email from_firstName from_lastName t cc bcc sender_email tval body
    where g: "get2 (PDict m) ''from'' ''raw'' = Inr from_raw"
      "get2 (PDict m) ''from'' ''email'' = Inr from_email"
      "get2 (PDict m) ''from'' ''firstName'' = Inr from_firstName"
      "get2 (PDict m) ''from'' ''lastName'' = Inr from_lastName"
      and r: "recipients (PDict m) ''to'' = Inr t" "recipients (PDict m) ''cc'' = Inr cc"
      "recipients (PDict m) ''bcc'' = Inr bcc"
      and s: "get2 (PDict m) ''sender'' ''email'' = Inr sender_email"
      and sb: "py_get (PDict m) ''subject'' (PStr '''') = Inr subject"
      and tx: "py_get (PDict m) ''text'' (PStr '''') = Inr tval"
      and b: "py_or tval (py_get (PDict m) ''html'' (PStr '''')) = Inr body"
      and c: "c = PDict
       [(''subject'', subject),
        (''from'', PDict [(''raw'', from_raw), (''email'', from_email),
                          (''firstName'', from_firstName), (''lastName'', from_lastName)]),
        (''to'', t), (''cc'', cc), (''bcc'', bcc),
        (''sender'', PDict [(''email'', sender_email)]),
        (''body'', body)]"
    by blast
  from g obtain d where d: "dict_get m ''from'' (PDict []) = PDict d"
    and "from_raw = dict_get d ''raw'' (PStr '''')" "from_email = dict_get d ''email'' (PStr '''')"
    "from_firstName = dict_get d ''firstName'' (PStr '''')"
    "from_lastName = dict_get d ''lastName'' (PStr '''')"
    by (auto dest!: get2_dict_Inr)
  moreover from s obtain sd where "dict_get m ''sender'' (PDict []) = PDict sd"
    "sender_email = dict_get sd ''email'' (PStr '''')"
    by (auto dest!: get2_dict_Inr)
  moreover have "subject = dict_get m ''subject'' (PStr '''')" using sb by simp
  moreover have "body = (if truthy (dict_get m ''text'' (PStr ''''))
                           then dict_get m ''text'' (PStr '''')
                           else dict_get m ''html'' (PStr ''''))"
    using tx b by (auto simp: py_or_def split: if_splits)
  ultimately show ?thesis
    using PDict c r by (simp add: recipient_ref_dict)
qed (use assms in \<open>simp_all add: email_content_def\<close>)

lemma format_engagement_email:
  assumes "dict_get resp ''engagement'' (PDict []) = PDict eng"
    and "dict_get eng ''type'' PNone = PStr ''EMAIL''"
    and "shared_fields (PDict resp) (PDict eng) = Inr sh"
  shows "format_engagement (PDict resp) =
           ebind (email_content (dict_get resp ''metadata'' (PDict [])))
             (\<lambda>c. Inr (PDict (sh @ [(''content'', c)])))"
  using assms
  by (simp add: format_engagement_def set_content_shared [OF assms(3)] ebind_def
           split: sum.splits)

lemma format_engagement_other:
  assumes "dict_get resp ''engagement'' (PDict []) = PDict eng"
    and "dict_get eng ''type'' PNone \<notin> PStr ` {''NOTE'', ''EMAIL'', ''TASK'', ''MEETING'', ''CALL''}"
    and "shared_fields (PDict resp) (PDict eng) = Inr sh"
  shows "format_engagement (PDict resp) = Inr (PDict sh)"
  using assms
  by (simp add: format_engagement_def)

text \<open>
  Claim C8. Building the shared fields never fails for a missing key. The section
  \<^verbatim>\<open>engagement\<close> of a response defaults to the empty dictionary when absent; for every
  response dictionary and every engagement dictionary the eight shared fields are built,
  each holding the value of its source key or \<^verbatim>\<open>None\<close> when the key is missing, and
  \<^verbatim>\<open>associations\<close> holding the empty dictionary when missing. The only way the step
  can raise is a response or an engagement section that is no dictionary at all.
\<close>

theorem shared_fields_missing_keys:
  "py_get (PDict resp) ''engagement'' (PDict []) =
     Inr (case map_of resp ''engagement'' of None \<Rightarrow> PDict [] | Some v \<Rightarrow> v)
   \<and> shared_fields (PDict resp) (PDict eng) =
     Inr [(''id'', case map_of eng ''id'' of None \<Rightarrow> PNone | Some v \<Rightarrow> v),
          (''type'', case map_of eng ''type'' of None \<Rightarrow> PNone | Some v \<Rightarrow> v),
          (''created_at'', case map_of eng ''createdAt'' of None \<Rightarrow> PNone | Some v \<Rightarrow> v),
          (''last_updated'', case map_of eng ''lastUpdated'' of None \<Rightarrow> PNone | Some v \<Rightarrow> v),
          (''created_by'', case map_of eng ''createdBy'' of None \<Rightarrow> PNone | Some v \<Rightarrow> v),
          (''modified_by'', case map_of eng ''modifiedBy'' of None \<Rightarrow> PNone | Some v \<Rightarrow> v),
          (''timestamp'', case map_of eng ''timestamp'' of None \<Rightarrow> PNone | Some v \<Rightarrow> v),
          (''associations'',
             case map_of resp ''associations'' of None \<Rightarrow> PDict [] | Some v \<Rightarrow> v)]
   \<and> (shared_fields r d = Inl e \<longrightarrow> \<not> is_dict r \<or> \<not> is_dict d)"
  using shared_fields_Inl [of r d e]
  by (simp add: shared_fields_dict dict_get_def)

text \<open>
  The theorem at an engagement that has only an \<^verbatim>\<open>id\<close>, and at an engagement section
  that is \<^verbatim>\<open>None\<close>.
\<close>

theorem shared_fields_missing_keys_witness:
  "shared_fields (PDict []) (PNone :: unit pyval) = Inl (no_attribute (PNone :: unit pyval) ''get'')
   \<and> \<not> is_dict (PNone :: unit pyval)
   \<and> shared_fields (PDict [(''associations'', PDict [])]) (PDict [(''id'', PInt 7)] :: unit pyval) =
     Inr [(''id'', PInt 7), (''type'', PNone), (''created_at'', PNone), (''last_updated'', PNone),
          (''created_by'', PNone), (''modified_by'', PNone), (''timestamp'', PNone),
          (''associations'', PDict [])]"
  using shared_fields_missing_keys [of "[(''associations'', PDict [])]" "[(''id'', PInt 7)]"
          "PDict []" "PNone :: unit pyval" "no_attribute (PNone :: unit pyval) ''get''"]
  by (simp add: shared_fields_def dict_get_def)

text \<open>
  Claim C4. An engagement whose type is none of \<^verbatim>\<open>NOTE\<close>, \<^verbatim>\<open>EMAIL\<close>, \<^verbatim>\<open>TASK\<close>,
  \<^verbatim>\<open>MEETING\<close>, \<^verbatim>\<open>CALL\<close> (compared as written, a missing type included) is formatted
  to exactly the eight shared fields, and the summary has no key \<^verbatim>\<open>content\<close>.
\<close>

theorem unknown_type_no_content:
  assumes "dict_get resp ''engagement'' (PDict []) = PDict eng"
    and "dict_get eng ''type'' PNone \<notin> PStr ` {''NOTE'', ''EMAIL'', ''TASK'', ''MEETING'', ''CALL''}"
  shows "\<exists>fe. format_engagement (PDict resp) = Inr (PDict fe)
           \<and> shared_fields (PDict resp) (PDict eng) = Inr fe
           \<and> map fst fe = [''id'', ''type'', ''created_at'', ''last_updated'', ''created_by'',
                           ''modified_by'', ''timestamp'', ''associations'']
           \<and> map_of fe ''content'' = None"
proof -
  obtain sh where sh: "shared_fields (PDict resp) (PDict eng) = Inr sh"
    by (simp add: shared_fields_dict)
  have f: "format_engagement (PDict resp) = Inr (PDict sh)"
    using assms sh by (rule format_engagement_other)
  have k: "map fst sh = [''id'', ''type'', ''created_at'', ''last_updated'', ''created_by'',
                           ''modified_by'', ''timestamp'', ''associations'']"
    and c: "map_of sh ''content'' = None"
    using sh by (auto simp: shared_fields_dict)
  show ?thesis
    by (intro exI [of _ sh] conjI) (rule f, rule sh, rule k, rule c)
qed

text \<open>
  The theorem at an engagement of type \<^verbatim>\<open>UNKNOWN_X\<close>.
\<close>

theorem unknown_type_no_content_witness:
  "dict_get [(''engagement'', PDict [(''id'', PInt 9), (''type'', PStr ''UNKNOWN_X'')]),
             (''metadata'', PDict [(''body'', PStr ''x'')])] ''engagement'' (PDict [])
     = (PDict [(''id'', PInt 9), (''type'', PStr ''UNKNOWN_X'')] :: unit pyval)
   \<and> format_engagement unknown_response =
       Inr (PDict [(''id'', PInt 9), (''type'', PStr ''UNKNOWN_X''), (''created_at'', PNone),
                   (''last_updated'', PNone), (''created_by'', PNone), (''modified_by'', PNone),
                   (''timestamp'', PNone), (''associations'', PDict [])])"
  using unknown_type_no_content
    [of "[(''engagement'', PDict [(''id'', PInt 9), (''type'', PStr ''UNKNOWN_X'')]),
          (''metadata'', PDict [(''body'', PStr ''x'')])]"
        "[(''id'', PInt 9), (''type'', PStr ''UNKNOWN_X'')] :: (string \<times> unit pyval) list"]
  by (simp add: unknown_response_def dict_get_def shared_fields_def)

lemma recipients_typed:
  assumes "objects_or_absent m k"
  shows "\<exists>t. recipients (PDict m) k = Inr t"
proof (cases "map_of m k")
  case None
  then show ?thesis by (simp add: recipients_def dict_get_def)
next
  case (Some v)
  with assms obtain xs where v: "v = PList xs" and xs: "list_all is_dict xs"
    by (cases v) (auto simp: objects_or_absent_def)
  have "\<forall>x\<in>set xs. \<exists>y. recipient_ref x = Inr y"
  proof
    fix x assume "x \<in> set xs"
    with xs have "is_dict x" by (simp add: list_all_iff)
    then obtain d where "x = PDict d" by (cases x) auto
    then show "\<exists>y. recipient_ref x = Inr y" by (simp add: recipient_ref_dict)
  qed
  then obtain ys where "emap recipient_ref xs = Inr ys"
    using emap_all_Inr by blast
  with Some v show ?thesis by (simp add: recipients_def dict_get_def)
qed

lemma get2_typed:
  assumes "object_or_absent m k1"
  shows "\<exists>x. get2 (PDict m) k1 k2 = Inr x"
proof (cases "map_of m k1")
  case None
  then show ?thesis by (simp add: get2_def dict_get_def)
next
  case (Some v)
  with assms obtain d where "v = PDict d"
    by (cases v) (auto simp: object_or_absent_def)
  with Some show ?thesis by (simp add: get2_def dict_get_def)
qed

lemma email_content_typed:
  assumes "email_metadata_typed m"
  shows "\<exists>c. email_content (PDict m) = Inr c"
proof -
  from assms have f: "object_or_absent m ''from''" and s: "object_or_absent m ''sender''"
    and t: "objects_or_absent m ''to''" "objects_or_absent m ''cc''" "objects_or_absent m ''bcc''"
    by (simp_all add: email_metadata_typed_def)
  obtain a1 a2 a3 a4 where a: "get2 (PDict m) ''from'' ''raw'' = Inr a1"
    "get2 (PDict m) ''from'' ''email'' = Inr a2"
    "get2 (PDict m) ''from'' ''firstName'' = Inr a3"
    "get2 (PDict m) ''from'' ''lastName'' = Inr a4"
    using get2_typed [OF f] by metis
  obtain b where b: "get2 (PDict m) ''sender'' ''email'' = Inr b"
    using get2_typed [OF s] by metis
  obtain r1 r2 r3 where r: "recipients (PDict m) ''to'' = Inr r1"
    "recipients (PDict m) ''cc'' = Inr r2" "recipients (PDict m) ''bcc'' = Inr r3"
    using t [THEN recipients_typed] by metis
  show ?thesis
    by (simp add: email_content_def a b r py_or_def)
qed

lemma email_content_empty:
  "email_content (PDict []) =
     Inr (PDict [(''subject'', PStr ''''),
                 (''from'', PDict [(''raw'', PStr ''''), (''email'', PStr ''''),
                                   (''firstName'', PStr ''''), (''lastName'', PStr '''')]),
                 (''to'', PList []), (''cc'', PList []), (''bcc'', PList []),
                 (''sender'', PDict [(''email'', PStr '''')]),
                 (''body'', PStr '''')])"
  by (simp add: email_content_def get2_def recipients_def py_or_def dict_get_def)

lemma at_path_content:
  "at_path (''content'' # ks) (PDict (sh @ [(''content'', c)])) =
     (case map_of sh ''content'' of None \<Rightarrow> at_path ks c | Some w \<Rightarrow> at_path ks w)"
  by (simp add: map_add_def split: option.splits)

lemma shared_no_content:
  "shared_fields (PDict resp) (PDict eng) = Inr sh \<Longrightarrow> map_of sh ''content'' = None"
  by (auto simp: shared_fields_dict)

lemma format_email_Inr:
  assumes "dict_get resp ''engagement'' (PDict []) = PDict eng"
    and "dict_get eng ''type'' PNone = PStr ''EMAIL''"
    and "format_engagement (PDict resp) = Inr fe"
  shows "\<exists>sh c. shared_fields (PDict resp) (PDict eng) = Inr sh
            \<and> email_content (dict_get resp ''metadata'' (PDict [])) = Inr c
            \<and> fe = PDict (sh @ [(''content'', c)])
            \<and> (\<forall>ks. at_path (''content'' # ks) fe = at_path ks c)"
proof -
  obtain sh where sh: "shared_fields (PDict resp) (PDict eng) = Inr sh"
    by (simp add: shared_fields_dict)
  have "ebind (email_content (dict_get resp ''metadata'' (PDict [])))
          (\<lambda>c. Inr (PDict (sh @ [(''content'', c)]))) = Inr fe"
    using format_engagement_email [OF assms(1,2) sh] assms(3) by simp
  then obtain c where c: "email_content (dict_get resp ''metadata'' (PDict [])) = Inr c"
    and fe: "fe = PDict (sh @ [(''content'', c)])"
    by (auto simp: ebind_eq_Inr)
  have "\<forall>ks. at_path (''content'' # ks) fe = at_path ks c"
    by (simp only: fe at_path_content shared_no_content [OF sh] option.case) simp
  with sh c fe show ?thesis by blast
qed

text \<open>
  Claim C3. For an engagement of type \<^verbatim>\<open>EMAIL\<close>: whenever a summary is produced, its
  \<^verbatim>\<open>content\<close> is an object with exactly the keys \<^verbatim>\<open>subject\<close>, \<^verbatim>\<open>from\<close>, \<^verbatim>\<open>to\<close>,
  \<^verbatim>\<open>cc\<close>, \<^verbatim>\<open>bcc\<close>, \<^verbatim>\<open>sender\<close>, \<^verbatim>\<open>body\<close>; a summary is produced for every
  metadata whose \<^verbatim>\<open>from\<close> and \<^verbatim>\<open>sender\<close> are objects and whose recipient lists are
  lists of objects, each of them possibly absent; and with empty metadata every key is
  there with its empty-string or empty-list default.
\<close>

theorem email_content_complete:
  assumes "dict_get resp ''engagement'' (PDict []) = PDict eng"
    and "dict_get eng ''type'' PNone = PStr ''EMAIL''"
  shows "(\<forall>fe. format_engagement (PDict resp) = Inr fe \<longrightarrow>
            (\<exists>c. at_path [''content''] fe = Some (PDict c)
               \<and> map fst c = [''subject'', ''from'', ''to'', ''cc'', ''bcc'', ''sender'', ''body'']))
       \<and> (\<forall>m. dict_get resp ''metadata'' (PDict []) = PDict m \<and> email_metadata_typed m \<longrightarrow>
            (\<exists>fe. format_engagement (PDict resp) = Inr fe))
       \<and> (dict_get resp ''metadata'' (PDict []) = PDict [] \<longrightarrow>
            formatted_at [''content''] (PDict resp) =
              Some (PDict [(''subject'', PStr ''''),
                 (''from'', PDict [(''raw'', PStr ''''), (''email'', PStr ''''),
                                   (''firstName'', PStr ''''), (''lastName'', PStr '''')]),
                 (''to'', PList []), (''cc'', PList []), (''bcc'', PList []),
                 (''sender'', PDict [(''email'', PStr '''')]),
                 (''body'', PStr '''')]))"
proof (intro conjI allI impI)
  fix fe assume fe: "format_engagement (PDict resp) = Inr fe"
  from format_email_Inr [OF assms fe] obtain c where
    c: "email_content (dict_get resp ''metadata'' (PDict [])) = Inr c"
    and p: "at_path [''content''] fe = at_path [] c"
    by blast
  from email_content_Inr [OF c] obtain kvs where
    "c = PDict kvs" "map fst kvs = [''subject'', ''from'', ''to'', ''cc'', ''bcc'', ''sender'', ''body'']"
    by auto
  with p show "\<exists>c. at_path [''content''] fe = Some (PDict c)
               \<and> map fst c = [''subject'', ''from'', ''to'', ''cc'', ''bcc'', ''sender'', ''body'']"
    by simp
next
  fix m assume m: "dict_get resp ''metadata'' (PDict []) = PDict m \<and> email_metadata_typed m"
  obtain sh where sh: "shared_fields (PDict resp) (PDict eng) = Inr sh"
    by (simp add: shared_fields_dict)
  from m email_content_typed obtain c where "email_content (PDict m) = Inr c" by blast
  with m show "\<exists>fe. format_engagement (PDict resp) = Inr fe"
    by (simp add: format_engagement_email [OF assms sh])
next
  assume m: "dict_get resp ''metadata'' (PDict []) = PDict []"
  obtain sh where sh: "shared_fields (PDict resp) (PDict eng) = Inr sh"
    by (simp add: shared_fields_dict)
  show "formatted_at [''content''] (PDict resp) =
              Some (PDict [(''subject'', PStr ''''),
                 (''from'', PDict [(''raw'', PStr ''''), (''email'', PStr ''''),
                                   (''firstName'', PStr ''''), (''lastName'', PStr '''')]),
                 (''to'', PList []), (''cc'', PList []), (''bcc'', PList []),
                 (''sender'', PDict [(''email'', PStr '''')]),
                 (''body'', PStr '''')])"
    by (simp only: formatted_at_def format_engagement_email [OF assms sh] m
          email_content_empty ebind_Inr sum.case at_path_content shared_no_content [OF sh]
          option.case) simp
qed

text \<open>
  The theorem at an email with empty metadata.
\<close>

theorem email_content_complete_witness:
  "dict_get [(''engagement'', PDict [(''id'', PInt 7), (''type'', PStr ''EMAIL'')]),
             (''metadata'', PDict [])] ''engagement'' (PDict [])
     = (PDict [(''id'', PInt 7), (''type'', PStr ''EMAIL'')] :: unit pyval)
   \<and> dict_get [(''id'', PInt 7), (''type'', PStr ''EMAIL'')] ''type'' PNone
     = (PStr ''EMAIL'' :: unit pyval)
   \<and> formatted_at [''content''] email_empty_response =
         Some (PDict [(''subject'', PStr ''''),
                 (''from'', PDict [(''raw'', PStr ''''), (''email'', PStr ''''),
                                   (''firstName'', PStr ''''), (''lastName'', PStr '''')]),
                 (''to'', PList []), (''cc'', PList []), (''bcc'', PList []),
                 (''sender'', PDict [(''email'', PStr '''')]),
                 (''body'', PStr '''')])"
proof -
  have e: "dict_get [(''engagement'', PDict [(''id'', PInt 7), (''type'', PStr ''EMAIL'')]),
             (''metadata'', PDict [])] ''engagement'' (PDict [])
     = (PDict [(''id'', PInt 7), (''type'', PStr ''EMAIL'')] :: unit pyval)"
    by (simp add: dict_get_def)
  have t: "dict_get [(''id'', PInt 7), (''type'', PStr ''EMAIL'')] ''type'' PNone
     = (PStr ''EMAIL'' :: unit pyval)"
    by (simp add: dict_get_def)
  have m: "dict_get [(''engagement'', PDict [(''id'', PInt 7), (''type'', PStr ''EMAIL'')]),
             (''metadata'', PDict [])] ''metadata'' (PDict []) = (PDict [] :: unit pyval)"
    by (simp add: dict_get_def)
  have "formatted_at [''content''] email_empty_response =
         Some (PDict [(''subject'', PStr ''''),
                 (''from'', PDict [(''raw'', PStr ''''), (''email'', PStr ''''),
                                   (''firstName'', PStr ''''), (''lastName'', PStr '''')]),
                 (''to'', PList []), (''cc'', PList []), (''bcc'', PList []),
                 (''sender'', PDict [(''email'', PStr '''')]),
                 (''body'', PStr '''')])"
    unfolding email_empty_response_def
    by (rule email_content_complete [OF e t, THEN conjunct2, THEN conjunct2, THEN mp, OF m])
  with e t show ?thesis by (intro conjI)
qed

text \<open>
  Claim C7, as amended. In the content of an email, the \<^verbatim>\<open>from\<close> object is built from
  \<^verbatim>\<open>metadata.from\<close>, and each of \<^verbatim>\<open>to\<close>, \<^verbatim>\<open>cc\<close>, \<^verbatim>\<open>bcc\<close> is the list of the objects
  built from the source recipients, one for one and in the source order (so it is empty
  when the source list is empty or absent). Each object built has exactly the keys
  \<^verbatim>\<open>raw\<close>, \<^verbatim>\<open>email\<close>, \<^verbatim>\<open>firstName\<close>, \<^verbatim>\<open>lastName\<close>, each holding the source value
  under that key, or the empty string when the source has no such key.
\<close>

theorem email_recipient_refs:
  assumes "dict_get resp ''engagement'' (PDict []) = PDict eng"
    and "dict_get eng ''type'' PNone = PStr ''EMAIL''"
    and "format_engagement (PDict resp) = Inr fe"
  shows "\<exists>m f. dict_get resp ''metadata'' (PDict []) = PDict m
      \<and> at_path [''content'', ''from''] fe = Some f
      \<and> recipient_ref (dict_get m ''from'' (PDict [])) = Inr f
      \<and> (\<forall>k\<in>{''to'', ''cc'', ''bcc''}. \<exists>src refs.
            py_iter (dict_get m k (PList [])) = Inr src
          \<and> at_path [''content'', k] fe = Some (PList refs)
          \<and> map recipient_ref src = map Inr refs)
      \<and> (\<forall>r y. recipient_ref r = Inr y \<longrightarrow>
            (\<exists>d. r = PDict d \<and>
               y = PDict [(''raw'', dict_get d ''raw'' (PStr '''')),
                          (''email'', dict_get d ''email'' (PStr '''')),
                          (''firstName'', dict_get d ''firstName'' (PStr '''')),
                          (''lastName'', dict_get d ''lastName'' (PStr ''''))]))"
proof -
  from format_email_Inr [OF assms] obtain c where
    c: "email_content (dict_get resp ''metadata'' (PDict [])) = Inr c"
    and p: "\<And>ks. at_path (''content'' # ks) fe = at_path ks c"
    by blast
  from email_content_Inr [OF c] obtain m f t cc bcc s body where
    m: "dict_get resp ''metadata'' (PDict []) = PDict m"
    and cc: "c = PDict [(''subject'', dict_get m ''subject'' (PStr '''')), (''from'', f),
                (''to'', t), (''cc'', cc), (''bcc'', bcc), (''sender'', s), (''body'', body)]"
    and f: "recipient_ref (dict_get m ''from'' (PDict [])) = Inr f"
    and r: "recipients (PDict m) ''to'' = Inr t" "recipients (PDict m) ''cc'' = Inr cc"
      "recipients (PDict m) ''bcc'' = Inr bcc"
    by blast
  have pf: "at_path [''content'', ''from''] fe = Some f"
    unfolding p cc by simp
  have rs: "\<exists>src refs. py_iter (dict_get m k (PList [])) = Inr src
          \<and> at_path [''content'', k] fe = Some (PList refs)
          \<and> map recipient_ref src = map Inr refs"
    if "k \<in> {''to'', ''cc'', ''bcc''}" for k
  proof -
    from that r obtain x where x: "recipients (PDict m) k = Inr x"
      and px: "at_path [k] c = Some x"
      by (auto simp: cc)
    from px have px: "at_path [''content'', k] fe = Some x"
      unfolding p .
    from recipients_Inr [OF x] px show ?thesis by auto
  qed
  have every: "\<forall>k\<in>{''to'', ''cc'', ''bcc''}. \<exists>src refs.
            py_iter (dict_get m k (PList [])) = Inr src
          \<and> at_path [''content'', k] fe = Some (PList refs)
          \<and> map recipient_ref src = map Inr refs"
    using rs by (intro ballI)
  have shape: "\<forall>r y. recipient_ref r = Inr y \<longrightarrow>
            (\<exists>d. r = PDict d \<and>
               y = PDict [(''raw'', dict_get d ''raw'' (PStr '''')),
                          (''email'', dict_get d ''email'' (PStr '''')),
                          (''firstName'', dict_get d ''firstName'' (PStr '''')),
                          (''lastName'', dict_get d ''lastName'' (PStr ''''))])"
    using recipient_ref_Inr by (intro allI impI)
  show ?thesis
    by (rule exI [of _ m], rule exI [of _ f], intro conjI)
       (rule m, rule pf, rule f, rule every, rule shape)
qed

text \<open>
  Claim C9, as amended. The body of an email is \<^verbatim>\<open>metadata.text\<close> when that is present
  and true in the sense of \<^verbatim>\<open>or\<close> (for a string: not empty); otherwise it is
  \<^verbatim>\<open>metadata.html\<close> when that key is present, and the empty string when it is absent.
  An absent \<^verbatim>\<open>text\<close> counts as not true.
\<close>

theorem email_body_fallback:
  assumes "dict_get resp ''engagement'' (PDict []) = PDict eng"
    and "dict_get eng ''type'' PNone = PStr ''EMAIL''"
    and "format_engagement (PDict resp) = Inr fe"
  shows "\<exists>m. dict_get resp ''metadata'' (PDict []) = PDict m
      \<and> (truthy (dict_get m ''text'' (PStr '''')) \<longrightarrow>
            at_path [''content'', ''body''] fe = map_of m ''text'')
      \<and> (\<not> truthy (dict_get m ''text'' (PStr '''')) \<longrightarrow>
            at_path [''content'', ''body''] fe =
              Some (case map_of m ''html'' of None \<Rightarrow> PStr '''' | Some h \<Rightarrow> h))
      \<and> (map_of m ''text'' = None \<longrightarrow> \<not> truthy (dict_get m ''text'' (PStr '''')))"
proof -
  from format_email_Inr [OF assms] obtain c where
    c: "email_content (dict_get resp ''metadata'' (PDict [])) = Inr c"
    and p: "\<And>ks. at_path (''content'' # ks) fe = at_path ks c"
    by blast
  from email_content_Inr [OF c] obtain m f t cc bcc s where
    m: "dict_get resp ''metadata'' (PDict []) = PDict m"
    and cc: "c = PDict [(''subject'', dict_get m ''subject'' (PStr '''')), (''from'', f),
                (''to'', t), (''cc'', cc), (''bcc'', bcc), (''sender'', s),
                (''body'', if truthy (dict_get m ''text'' (PStr ''''))
                           then dict_get m ''text'' (PStr '''')
                           else dict_get m ''html'' (PStr ''''))]"
    by blast
  have b: "at_path [''content'', ''body''] fe =
             Some (if truthy (dict_get m ''text'' (PStr ''''))
                           then dict_get m ''text'' (PStr '''')
                           else dict_get m ''html'' (PStr ''''))"
    unfolding p cc by simp
  have b1: "truthy (dict_get m ''text'' (PStr '''')) \<longrightarrow>
            at_path [''content'', ''body''] fe = map_of m ''text''"
    unfolding b by (auto simp: dict_get_def split: option.splits)
  have b2: "\<not> truthy (dict_get m ''text'' (PStr '''')) \<longrightarrow>
            at_path [''content'', ''body''] fe =
              Some (case map_of m ''html'' of None \<Rightarrow> PStr '''' | Some h \<Rightarrow> h)"
    unfolding b by (auto simp: dict_get_def split: option.splits)
  have b3: "map_of m ''text'' = None \<longrightarrow> \<not> truthy (dict_get m ''text'' (PStr ''''))"
    by (simp add: dict_get_def)
  show ?thesis
    by (rule exI [of _ m], intro conjI) (rule m, rule b1, rule b2, rule b3)
qed

lemma format_email_html:
  "format_engagement email_html_response = Inr email_html_formatted"
  by (simp add: email_html_response_def email_html_items_def email_html_engagement_def
        email_html_metadata_def email_html_formatted_def format_engagement_def
        shared_fields_def set_content_def email_content_def get2_def recipients_def
        recipient_ref_def py_or_def dict_get_def)

text \<open>
  Claim C7 as stated fails: the \<^verbatim>\<open>from\<close> object of a formatted email has the keys
  \<^verbatim>\<open>firstName\<close> and \<^verbatim>\<open>lastName\<close>, not \<^verbatim>\<open>first_name\<close> and \<^verbatim>\<open>last_name\<close>.
\<close>

theorem recipient_keys_counterexample:
  "formatted_at [''content'', ''from''] email_html_response =
     Some (PDict [(''raw'', PStr ''''), (''email'', PStr ''ann@x.io''),
                  (''firstName'', PStr ''Ann''), (''lastName'', PStr '''')])
   \<and> \<not> spec_RecipientRef (PDict [(''raw'', PStr ''''), (''email'', PStr ''ann@x.io''),
                  (''firstName'', PStr ''Ann''), (''lastName'', PStr '''')] :: unit pyval)"
  by (simp add: formatted_at_def format_email_html email_html_formatted_def)

text \<open>
  Claim C9 as stated fails: with \<^verbatim>\<open>metadata.text\<close> present but empty and an HTML body
  present, the body is the HTML text, where the claim gives the (empty) \<^verbatim>\<open>text\<close>.
\<close>

theorem email_body_counterexample:
  "formatted_at [''content'', ''body''] email_html_response = Some (PStr ''<p>Hi</p>'')
   \<and> spec_email_body email_html_metadata = PStr ''''"
  by (simp add: formatted_at_def format_email_html email_html_formatted_def
        spec_email_body_def email_html_metadata_def)


lemma email_html_engagement_eq:
  "dict_get email_html_items ''engagement'' (PDict []) = PDict email_html_engagement"
  by (simp add: email_html_items_def dict_get_def)

lemma email_html_type_eq:
  "dict_get email_html_engagement ''type'' PNone = PStr ''EMAIL''"
  by (simp add: email_html_engagement_def dict_get_def)

lemma email_html_to:
  "at_path [''content'', ''to''] email_html_formatted =
        Some (PList
              [PDict [(''raw'', PStr ''''), (''email'', PStr ''bob@x.io''),
                      (''firstName'', PStr ''''), (''lastName'', PStr '''')],
               PDict [(''raw'', PStr ''''), (''email'', PStr ''cy@x.io''),
                      (''firstName'', PStr ''''), (''lastName'', PStr ''Cy'')]])"
  by (simp add: email_html_formatted_def)

lemma email_html_body:
  "at_path [''content'', ''body''] email_html_formatted = Some (PStr ''<p>Hi</p>'')"
  by (simp add: email_html_formatted_def)

lemma format_email_html_items:
  "format_engagement (PDict email_html_items) = Inr email_html_formatted"
  using format_email_html by (simp add: email_html_response_def)

text \<open>
  The theorem at an email with a sender and two recipients.
\<close>

theorem email_recipient_refs_witness:
  "dict_get email_html_items ''engagement'' (PDict []) = PDict email_html_engagement
   \<and> dict_get email_html_engagement ''type'' PNone = PStr ''EMAIL''
   \<and> format_engagement (PDict email_html_items) = Inr email_html_formatted
   \<and> at_path [''content'', ''to''] email_html_formatted =
        Some (PList
              [PDict [(''raw'', PStr ''''), (''email'', PStr ''bob@x.io''),
                      (''firstName'', PStr ''''), (''lastName'', PStr '''')],
               PDict [(''raw'', PStr ''''), (''email'', PStr ''cy@x.io''),
                      (''firstName'', PStr ''''), (''lastName'', PStr ''Cy'')]])
   \<and> (\<exists>m f. dict_get email_html_items ''metadata'' (PDict []) = PDict m
      \<and> at_path [''content'', ''from''] email_html_formatted = Some f
      \<and> recipient_ref (dict_get m ''from'' (PDict [])) = Inr f
      \<and> (\<forall>k\<in>{''to'', ''cc'', ''bcc''}. \<exists>src refs.
            py_iter (dict_get m k (PList [])) = Inr src
          \<and> at_path [''content'', k] email_html_formatted = Some (PList refs)
          \<and> map recipient_ref src = map Inr refs)
      \<and> (\<forall>r y. recipient_ref r = Inr y \<longrightarrow>
            (\<exists>d. r = PDict d \<and>
               y = PDict [(''raw'', dict_get d ''raw'' (PStr '''')),
                          (''email'', dict_get d ''email'' (PStr '''')),
                          (''firstName'', dict_get d ''firstName'' (PStr '''')),
                          (''lastName'', dict_get d ''lastName'' (PStr ''''))])))"
  by (intro conjI email_html_engagement_eq email_html_type_eq format_email_html_items
        email_html_to
        email_recipient_refs [OF email_html_engagement_eq email_html_type_eq format_email_html_items])

text \<open>
  The theorem at an email whose \<^verbatim>\<open>text\<close> is the empty string.
\<close>

theorem email_body_fallback_witness:
  "dict_get email_html_items ''engagement'' (PDict []) = PDict email_html_engagement
   \<and> dict_get email_html_engagement ''type'' PNone = PStr ''EMAIL''
   \<and> format_engagement (PDict email_html_items) = Inr email_html_formatted
   \<and> at_path [''content'', ''body''] email_html_formatted = Some (PStr ''<p>Hi</p>'')
   \<and> (\<exists>m. dict_get email_html_items ''metadata'' (PDict []) = PDict m
      \<and> (truthy (dict_get m ''text'' (PStr '''')) \<longrightarrow>
            at_path [''content'', ''body''] email_html_formatted = map_of m ''text'')
      \<and> (\<not> truthy (dict_get m ''text'' (PStr '''')) \<longrightarrow>
            at_path [''content'', ''body''] email_html_formatted =
              Some (case map_of m ''html'' of None \<Rightarrow> PStr '''' | Some h \<Rightarrow> h))
      \<and> (map_of m ''text'' = None \<longrightarrow> \<not> truthy (dict_get m ''text'' (PStr ''''))))"
  by (intro conjI email_html_engagement_eq email_html_type_eq format_email_html_items
        email_html_body
        email_body_fallback [OF email_html_engagement_eq email_html_type_eq format_email_html_items])

end
